theory Spec2Isabelle
  imports Complex_Main
begin

section \<open>Numbers and series\<close>

text \<open>
  The program computes on pandas Series of float64. A slot of a Series holds a finite
  number, an infinity or NaN (pandas' marker of a missing value). The model keeps these
  four kinds of value and their IEEE 754 arithmetic: division by zero gives an infinity
  or NaN, NaN propagates, a comparison with NaN is false. Finite values are exact reals,
  so rounding is not modelled, and the two zeros of IEEE 754 are one value. The sign of a
  zero divisor decides only the sign of an infinite quotient; the model takes the sign of
  the dividend. In \<open>calculate_rsi\<close> such a quotient is used once, as
  \<open>100 / (1 + rs)\<close>, which is 0 for either sign.
\<close>

datatype fval = NaN | Fin real | PInf | NInf

fun fneg :: "fval \<Rightarrow> fval" where
  "fneg NaN = NaN"
| "fneg (Fin a) = Fin (- a)"
| "fneg PInf = NInf"
| "fneg NInf = PInf"

fun fadd :: "fval \<Rightarrow> fval \<Rightarrow> fval" where
  "fadd NaN _ = NaN"
| "fadd _ NaN = NaN"
| "fadd (Fin a) (Fin b) = Fin (a + b)"
| "fadd (Fin a) PInf = PInf"
| "fadd (Fin a) NInf = NInf"
| "fadd PInf (Fin b) = PInf"
| "fadd NInf (Fin b) = NInf"
| "fadd PInf PInf = PInf"
| "fadd NInf NInf = NInf"
| "fadd PInf NInf = NaN"
| "fadd NInf PInf = NaN"

definition fsub :: "fval \<Rightarrow> fval \<Rightarrow> fval" where
  "fsub a b = fadd a (fneg b)"

fun fmul :: "fval \<Rightarrow> fval \<Rightarrow> fval" where
  "fmul NaN _ = NaN"
| "fmul _ NaN = NaN"
| "fmul (Fin a) (Fin b) = Fin (a * b)"
| "fmul (Fin a) PInf = (if a = 0 then NaN else if 0 < a then PInf else NInf)"
| "fmul (Fin a) NInf = (if a = 0 then NaN else if 0 < a then NInf else PInf)"
| "fmul PInf (Fin b) = (if b = 0 then NaN else if 0 < b then PInf else NInf)"
| "fmul NInf (Fin b) = (if b = 0 then NaN else if 0 < b then NInf else PInf)"
| "fmul PInf PInf = PInf"
| "fmul NInf NInf = PInf"
| "fmul PInf NInf = NInf"
| "fmul NInf PInf = NInf"

fun fdiv :: "fval \<Rightarrow> fval \<Rightarrow> fval" where
  "fdiv NaN _ = NaN"
| "fdiv _ NaN = NaN"
| "fdiv (Fin a) (Fin b) =
     (if b = 0 then (if a = 0 then NaN else if 0 < a then PInf else NInf)
      else Fin (a / b))"
| "fdiv (Fin a) PInf = Fin 0"
| "fdiv (Fin a) NInf = Fin 0"
| "fdiv PInf (Fin b) = (if 0 \<le> b then PInf else NInf)"
| "fdiv NInf (Fin b) = (if 0 \<le> b then NInf else PInf)"
| "fdiv PInf PInf = NaN"
| "fdiv PInf NInf = NaN"
| "fdiv NInf PInf = NaN"
| "fdiv NInf NInf = NaN"

fun fsqrt :: "fval \<Rightarrow> fval" where
  "fsqrt NaN = NaN"
| "fsqrt (Fin a) = (if a < 0 then NaN else Fin (sqrt a))"
| "fsqrt PInf = PInf"
| "fsqrt NInf = NaN"

text \<open>Comparisons: every comparison with NaN is false.\<close>

fun flt :: "fval \<Rightarrow> fval \<Rightarrow> bool" where
  "flt NaN _ = False"
| "flt _ NaN = False"
| "flt (Fin a) (Fin b) = (a < b)"
| "flt (Fin a) PInf = True"
| "flt (Fin a) NInf = False"
| "flt PInf _ = False"
| "flt NInf (Fin b) = True"
| "flt NInf PInf = True"
| "flt NInf NInf = False"

definition fgt :: "fval \<Rightarrow> fval \<Rightarrow> bool" where
  "fgt a b = flt b a"

definition fle :: "fval \<Rightarrow> fval \<Rightarrow> bool" where
  "fle a b = (a \<noteq> NaN \<and> b \<noteq> NaN \<and> \<not> flt b a)"

type_synonym series = "fval list"

text \<open>
  \<open>Series.diff(1)\<close>: the first slot is NaN, slot \<open>i\<close> holds
  \<open>s[i] - s[i-1]\<close>.
\<close>

definition diff1 :: "series \<Rightarrow> series" where
  "diff1 s = (case s of [] \<Rightarrow> [] | x # t \<Rightarrow> NaN # map2 (\<lambda>prev cur. fsub cur prev) s t)"

text \<open>
  \<open>s.where(cond, other)\<close> keeps the slots where \<open>cond\<close> holds and puts
  \<open>other\<close> in the others; \<open>s > c\<close> and \<open>s < c\<close> are the slot-wise comparisons.
\<close>

definition series_gt :: "series \<Rightarrow> fval \<Rightarrow> bool list" where
  "series_gt s c = map (\<lambda>v. fgt v c) s"

definition series_lt :: "series \<Rightarrow> fval \<Rightarrow> bool list" where
  "series_lt s c = map (\<lambda>v. flt v c) s"

definition where_series :: "series \<Rightarrow> bool list \<Rightarrow> fval \<Rightarrow> series" where
  "where_series s cond other = map2 (\<lambda>v c. if c then v else other) s cond"

definition series_neg :: "series \<Rightarrow> series" where
  "series_neg s = map fneg s"

definition series_add :: "series \<Rightarrow> series \<Rightarrow> series" where
  "series_add a b = map2 fadd a b"

definition series_sub :: "series \<Rightarrow> series \<Rightarrow> series" where
  "series_sub a b = map2 fsub a b"

definition series_div :: "series \<Rightarrow> series \<Rightarrow> series" where
  "series_div a b = map2 fdiv a b"

definition series_mul_scalar :: "series \<Rightarrow> fval \<Rightarrow> series" where
  "series_mul_scalar s c = map (\<lambda>v. fmul v c) s"

definition scalar_add :: "fval \<Rightarrow> series \<Rightarrow> series" where
  "scalar_add c s = map (\<lambda>v. fadd c v) s"

definition scalar_sub :: "fval \<Rightarrow> series \<Rightarrow> series" where
  "scalar_sub c s = map (\<lambda>v. fsub c v) s"

definition scalar_div :: "fval \<Rightarrow> series \<Rightarrow> series" where
  "scalar_div c s = map (\<lambda>v. fdiv c v) s"

subsection \<open>Rolling windows\<close>

text \<open>
  \<open>s.rolling(window, min_periods)\<close> looks, at slot \<open>i\<close>, at the slots
  \<open>i - window + 1 .. i\<close> that exist. NaN slots are not observations, and neither
  are infinite ones: pandas turns an infinity into NaN before it rolls. The
  aggregate is NaN while the window holds fewer than \<open>min_periods\<close> observations;
  \<open>min_periods\<close> is \<open>window\<close> when it is not given. pandas accepts
  \<open>min_periods \<le> window\<close> only, which holds at both uses below.
  The mean is the sum of the observations over their number; the standard deviation is
  the sample one (divisor \<open>n - 1\<close>), NaN on fewer than two observations. pandas
  updates the sums from one window to the next; the model sums each window anew, which is
  the same number when nothing is rounded.
\<close>

definition window_at :: "nat \<Rightarrow> 'a list \<Rightarrow> nat \<Rightarrow> 'a list" where
  "window_at w xs i = drop (Suc i - w) (take (Suc i) xs)"

definition observations :: "series \<Rightarrow> series" where
  "observations xs = filter (\<lambda>v. v \<noteq> NaN \<and> v \<noteq> PInf \<and> v \<noteq> NInf) xs"

definition fsum :: "series \<Rightarrow> fval" where
  "fsum xs = foldl fadd (Fin 0) xs"

definition mean_obs :: "series \<Rightarrow> fval" where
  "mean_obs obs = (if obs = [] then NaN else fdiv (fsum obs) (Fin (real (length obs))))"

definition std_obs :: "series \<Rightarrow> fval" where
  "std_obs obs =
     (if length obs \<le> 1 then NaN
      else let m = mean_obs obs;
               ssd = fsum (map (\<lambda>v. fmul (fsub v m) (fsub v m)) obs)
           in fsqrt (fdiv ssd (Fin (real (length obs - 1)))))"

definition rolling :: "nat \<Rightarrow> nat \<Rightarrow> (series \<Rightarrow> fval) \<Rightarrow> series \<Rightarrow> series" where
  "rolling window min_periods agg s =
     map (\<lambda>i. let obs = observations (window_at window s i)
              in if min_periods \<le> length obs then agg obs else NaN)
         [0..<length s]"

definition roll_mean :: "nat \<Rightarrow> nat \<Rightarrow> series \<Rightarrow> series" where
  "roll_mean window min_periods s = rolling window min_periods mean_obs s"

definition roll_std :: "nat \<Rightarrow> nat \<Rightarrow> series \<Rightarrow> series" where
  "roll_std window min_periods s = rolling window min_periods std_obs s"

section \<open>The application\<close>

text \<open>
  The state of \<open>StockApp\<close> that the computations read: the symbol, the interval and
  the seven check boxes.
\<close>

record StockApp =
  symbol_var :: string
  interval_var :: string
  show_volume :: bool
  show_rsi :: bool
  show_bbands :: bool
  show_ma5 :: bool
  show_ma20 :: bool
  show_ma60 :: bool
  show_ma200 :: bool

text \<open>A row of the price table, and the table as the list of its rows in time order.\<close>

record ohlcv =
  Open :: fval
  High :: fval
  Low :: fval
  Close :: fval
  Volume :: fval

type_synonym dataframe = "ohlcv list"

definition close_column :: "dataframe \<Rightarrow> series" where
  "close_column data = map Close data"

subsection \<open>\<open>get_mav\<close>\<close>

definition get_mav :: "StockApp \<Rightarrow> int list option" where
  "get_mav self =
     (let mav_values = [];
          mav_values = (if show_ma5 self then mav_values @ [5] else mav_values);
          mav_values = (if show_ma20 self then mav_values @ [20] else mav_values);
          mav_values = (if show_ma60 self then mav_values @ [60] else mav_values);
          mav_values = (if show_ma200 self then mav_values @ [200] else mav_values)
      in if mav_values \<noteq> [] then Some mav_values else None)"

subsection \<open>\<open>calculate_rsi\<close>\<close>

text \<open>The local variables of \<open>calculate_rsi\<close>, each as a function of the input.\<close>

definition rsi_delta :: "series \<Rightarrow> series" where
  "rsi_delta s = diff1 s"

definition rsi_gain :: "series \<Rightarrow> series" where
  "rsi_gain s = (let delta = rsi_delta s in where_series delta (series_gt delta (Fin 0)) (Fin 0))"

definition rsi_loss :: "series \<Rightarrow> series" where
  "rsi_loss s =
     (let delta = rsi_delta s in series_neg (where_series delta (series_lt delta (Fin 0)) (Fin 0)))"

definition rsi_avg_gain :: "series \<Rightarrow> nat \<Rightarrow> series" where
  "rsi_avg_gain s period = roll_mean period 1 (rsi_gain s)"

definition rsi_avg_loss :: "series \<Rightarrow> nat \<Rightarrow> series" where
  "rsi_avg_loss s period = roll_mean period 1 (rsi_loss s)"

definition calculate_rsi :: "series \<Rightarrow> nat \<Rightarrow> series" where
  "calculate_rsi s period =
     (let avg_gain = rsi_avg_gain s period;
          avg_loss = rsi_avg_loss s period;
          rs = series_div avg_gain avg_loss
      in scalar_sub (Fin 100) (scalar_div (Fin 100) (scalar_add (Fin 1) rs)))"

subsection \<open>\<open>calculate_bbands\<close>\<close>

record bbands =
  Upper :: series
  Lower :: series

definition calculate_bbands :: "dataframe \<Rightarrow> nat \<Rightarrow> real \<Rightarrow> bbands" where
  "calculate_bbands data window no_of_std =
     (let rolling_mean = roll_mean window window (close_column data);
          rolling_std = roll_std window window (close_column data);
          upper_band = series_add rolling_mean (series_mul_scalar rolling_std (Fin no_of_std));
          lower_band = series_sub rolling_mean (series_mul_scalar rolling_std (Fin no_of_std))
      in \<lparr>Upper = upper_band, Lower = lower_band\<rparr>)"

subsection \<open>\<open>get_indicators\<close>\<close>

text \<open>
  \<open>mplfinance.make_addplot\<close> belongs to the plotting library: it packs its arguments
  into a descriptor of one overlay. The model keeps the arguments this program passes.
  The library's panel is the main (price) panel unless another is named; \<open>'lower'\<close>
  names the panel under it.
\<close>

datatype panel = PanelMain | PanelLower

record addplot =
  ap_data :: series
  ap_panel :: panel
  ap_color :: string
  ap_ylabel :: "string option"

definition make_addplot :: "series \<Rightarrow> panel option \<Rightarrow> string \<Rightarrow> string option \<Rightarrow> addplot" where
  "make_addplot d p c y =
     \<lparr>ap_data = d, ap_panel = (case p of None \<Rightarrow> PanelMain | Some q \<Rightarrow> q),
      ap_color = c, ap_ylabel = y\<rparr>"

definition get_indicators :: "StockApp \<Rightarrow> dataframe \<Rightarrow> addplot list" where
  "get_indicators self data =
     (let addplots = [];
          addplots =
            (if show_rsi self
             then (let rsi = calculate_rsi (close_column data) 14
                   in addplots @ [make_addplot rsi (Some PanelLower) ''blue'' (Some ''RSI'')])
             else addplots);
          addplots =
            (if show_bbands self
             then (let bb = calculate_bbands data 20 2
                   in addplots @ [make_addplot (Upper bb) None ''red'' None,
                                  make_addplot (Lower bb) None ''red'' None])
             else addplots)
      in addplots)"

subsection \<open>\<open>plot_data\<close> and \<open>load_data\<close>\<close>

text \<open>
  \<open>plot_data\<close> builds the keyword arguments of \<open>mplfinance.plot\<close> and hands
  them to the library. The function \<open>plot_data\<close> of the model is these arguments;
  the key \<open>mav\<close> is present only when \<open>get_mav\<close> returned a list. The call
  of the library follows as \<open>plot_data_call\<close>.
\<close>

record plot_params =
  pp_data :: dataframe
  pp_type :: string
  pp_style :: string
  pp_volume :: bool
  pp_addplot :: "addplot list"
  pp_returnfig :: bool
  pp_figsize :: "nat \<times> nat"
  pp_mav :: "int list option"

definition plot_data :: "StockApp \<Rightarrow> dataframe \<Rightarrow> plot_params" where
  "plot_data self data =
     (let mav_values = get_mav self;
          addplots = get_indicators self data;
          params = \<lparr>pp_data = data, pp_type = ''candle'', pp_style = ''charles'',
                    pp_volume = show_volume self, pp_addplot = addplots,
                    pp_returnfig = True, pp_figsize = (10, 6), pp_mav = None\<rparr>
      in (case mav_values of
            None \<Rightarrow> params
          | Some m \<Rightarrow> (if m \<noteq> [] then params\<lparr>pp_mav := Some m\<rparr> else params)))"

text \<open>
  Drawing belongs to the libraries (\<open>mplfinance.plot\<close>, then the canvas and the
  toolbar), and they may raise: mplfinance does on an overlay that holds no number. What
  they do on given arguments is the parameter \<open>mpf_plot\<close>: \<open>None\<close> when the
  plot is drawn, the message of the exception otherwise.

  An exception is told by where it is raised: \<open>ValueError\<close> is the one that
  \<open>load_data\<close> raises itself, \<open>ServiceError\<close> comes from the data service,
  \<open>PlotError\<close> from the drawing. The handler uses the message only.
\<close>

datatype exn = ValueError string | ServiceError string | PlotError string

fun str_exn :: "exn \<Rightarrow> string" where
  "str_exn (ValueError m) = m"
| "str_exn (ServiceError m) = m"
| "str_exn (PlotError m) = m"

definition plot_data_call ::
  "(plot_params \<Rightarrow> string option) \<Rightarrow> StockApp \<Rightarrow> dataframe \<Rightarrow> exn + plot_params" where
  "plot_data_call mpf_plot self data =
     (let params = plot_data self data
      in (case mpf_plot params of
            None \<Rightarrow> Inr params
          | Some m \<Rightarrow> Inl (PlotError m)))"

text \<open>
  \<open>load_data\<close> asks the data service for a year of prices; what the service answers
  (a table, or an exception with its message) is a parameter here. The body of the
  \<open>try\<close> raises \<open>ValueError\<close> on an empty table and calls \<open>plot_data\<close>
  otherwise; the handler shows the message of any exception in an error box.
\<close>

datatype outcome =
    ShowWarning string string
  | ShowError string string
  | Plotted plot_params

definition load_try ::
  "(plot_params \<Rightarrow> string option) \<Rightarrow> StockApp \<Rightarrow> exn + dataframe \<Rightarrow> exn + plot_params" where
  "load_try mpf_plot self fetched =
     (case fetched of
        Inl e \<Rightarrow> Inl e
      | Inr data \<Rightarrow>
          (if data = [] then Inl (ValueError ''No data found for this symbol.'')
           else plot_data_call mpf_plot self data))"

definition load_data ::
  "(plot_params \<Rightarrow> string option) \<Rightarrow> StockApp \<Rightarrow> exn + dataframe \<Rightarrow> outcome" where
  "load_data mpf_plot self fetched =
     (if symbol_var self = [] then ShowWarning ''Input Error'' ''Please enter a stock symbol.''
      else (case load_try mpf_plot self fetched of
              Inl e \<Rightarrow> ShowError ''Error'' (str_exn e)
            | Inr p \<Rightarrow> Plotted p))"

section \<open>The series of the program on real prices\<close>

text \<open>
  On a price series \<open>cs\<close> of real numbers the gain and loss series of
  \<open>calculate_rsi\<close> are lists of reals, written out here. Slot 0 has no move; the
  program puts 0 there (\<open>where\<close> replaces the NaN of \<open>diff\<close>), and that 0 is
  an observation of the rolling mean. The specification leaves slot 0 undefined instead.
  A window is flat when no close in it differs from the close before. Prices are ordinary
  when no close exceeds \<open>10^9\<close> in magnitude and two closes in a row are equal or
  at least \<open>10^-9\<close> apart: float64 then neither overflows nor loses a move to
  underflow in \<open>calculate_rsi\<close>. The mean and the sample standard deviation of a
  list of reals are the usual ones.
\<close>

definition price_move :: "real list \<Rightarrow> nat \<Rightarrow> real" where
  "price_move cs i = (if i = 0 then 0 else cs ! i - cs ! (i - 1))"

definition gains :: "real list \<Rightarrow> real list" where
  "gains cs = map (\<lambda>i. max (price_move cs i) 0) [0..<length cs]"

definition losses :: "real list \<Rightarrow> real list" where
  "losses cs = map (\<lambda>i. max (- price_move cs i) 0) [0..<length cs]"

definition flat_window :: "nat \<Rightarrow> real list \<Rightarrow> nat \<Rightarrow> bool" where
  "flat_window p cs i = list_all (\<lambda>j. j = 0 \<or> cs ! j = cs ! (j - 1)) [Suc i - p..<Suc i]"


definition mean_real :: "real list \<Rightarrow> real" where
  "mean_real rs = sum_list rs / real (length rs)"

definition std_real :: "real list \<Rightarrow> real" where
  "std_real rs =
     sqrt (sum_list (map (\<lambda>x. (x - mean_real rs) * (x - mean_real rs)) rs) / real (length rs - 1))"

text \<open>The last line of \<open>calculate_rsi\<close> on one slot.\<close>

definition rsi_point :: "fval \<Rightarrow> fval \<Rightarrow> fval" where
  "rsi_point g l = fsub (Fin 100) (fdiv (Fin 100) (fadd (Fin 1) (fdiv g l)))"

text \<open>A row of the table whose four prices are \<open>c\<close>, for concrete tables.\<close>

definition bar :: "real \<Rightarrow> ohlcv" where
  "bar c = \<lparr>Open = Fin c, High = Fin c, Low = Fin c, Close = Fin c, Volume = Fin 0\<rparr>"

text \<open>Concrete inputs: a table of 21 closes whose first 20 have mean 10 and sample
  standard deviation 2, three settings of the check boxes, and a stand-in for the
  drawing that raises on an overlay without a number and draws otherwise.\<close>

definition refuses_blank_overlay :: "plot_params \<Rightarrow> string option" where
  "refuses_blank_overlay p =
     (if list_ex (\<lambda>a. list_all (\<lambda>v. v = NaN) (ap_data a)) (pp_addplot p)
      then Some ''overlay without a number'' else None)"

definition sample_closes :: "real list" where
  "sample_closes = [13, 7, 13, 7, 13, 7, 13, 7, 11, 9, 11, 9, 10, 10, 10, 10, 10, 10, 10, 10, 12]"

definition app_ma_5_20_200 :: StockApp where
  "app_ma_5_20_200 =
     \<lparr>symbol_var = ''AAPL'', interval_var = ''1d'', show_volume = True, show_rsi = False,
      show_bbands = False, show_ma5 = True, show_ma20 = True, show_ma60 = False,
      show_ma200 = True\<rparr>"

definition app_rsi_bbands_ma5 :: StockApp where
  "app_rsi_bbands_ma5 =
     \<lparr>symbol_var = ''AAPL'', interval_var = ''1d'', show_volume = True, show_rsi = True,
      show_bbands = True, show_ma5 = True, show_ma20 = False, show_ma60 = False,
      show_ma200 = False\<rparr>"

definition app_default :: StockApp where
  "app_default =
     \<lparr>symbol_var = ''AAPL'', interval_var = ''1d'', show_volume = True, show_rsi = False,
      show_bbands = False, show_ma5 = False, show_ma20 = False, show_ma60 = False,
      show_ma200 = False\<rparr>"

section \<open>Series and windows\<close>

lemma foldl_fadd_Fin: "foldl fadd (Fin a) (map Fin rs) = Fin (a + sum_list rs)"
  by (induction rs arbitrary: a) (simp_all add: add.assoc)

lemma fsum_Fin: "fsum (map Fin rs) = Fin (sum_list rs)"
  by (simp add: fsum_def foldl_fadd_Fin)

lemma observations_Fin: "observations (map Fin rs) = map Fin rs"
  by (induction rs) (simp_all add: observations_def)

lemma window_at_map: "window_at w (map f xs) i = map f (window_at w xs i)"
  by (simp add: window_at_def take_map drop_map)

lemma length_window_at: "i < length xs \<Longrightarrow> length (window_at w xs i) = min w (Suc i)"
  by (auto simp: window_at_def)

lemma window_at_nth:
  "i < length xs \<Longrightarrow> k < min w (Suc i) \<Longrightarrow> window_at w xs i ! k = xs ! (Suc i - w + k)"
  by (auto simp: window_at_def)

lemma set_window_at:
  assumes "i < length xs"
  shows "set (window_at w xs i) = {xs ! j | j. Suc i - w \<le> j \<and> j \<le> i}" (is "?L = ?R")
proof
  show "?L \<subseteq> ?R"
  proof
    fix x assume "x \<in> ?L"
    then obtain k where k: "k < length (window_at w xs i)" "x = window_at w xs i ! k"
      by (auto simp: in_set_conv_nth)
    with assms have "k < min w (Suc i)" by (simp add: length_window_at)
    with k assms have "x = xs ! (Suc i - w + k)" by (simp add: window_at_nth)
    moreover from \<open>k < min w (Suc i)\<close> have "Suc i - w \<le> Suc i - w + k" "Suc i - w + k \<le> i" by auto
    ultimately show "x \<in> ?R" by blast
  qed
  show "?R \<subseteq> ?L"
  proof
    fix x assume "x \<in> ?R"
    then obtain j where j: "x = xs ! j" "Suc i - w \<le> j" "j \<le> i" by blast
    define k where "k = j - (Suc i - w)"
    have kb: "k < min w (Suc i)" using j by (auto simp: k_def)
    have "Suc i - w + k = j" using j by (simp add: k_def)
    with kb assms have "window_at w xs i ! k = x" using j by (simp add: window_at_nth)
    moreover have "k < length (window_at w xs i)" using kb assms by (simp add: length_window_at)
    ultimately show "x \<in> ?L" by (auto simp: in_set_conv_nth)
  qed
qed

lemma mean_obs_Fin:
  "rs \<noteq> [] \<Longrightarrow> mean_obs (map Fin rs) = Fin (sum_list rs / real (length rs))"
  by (simp add: mean_obs_def fsum_Fin)

lemma length_rolling: "length (rolling w m agg s) = length s"
  by (simp add: rolling_def)

lemma rolling_nth:
  "i < length s \<Longrightarrow> rolling w m agg s ! i =
     (let obs = observations (window_at w s i) in if m \<le> length obs then agg obs else NaN)"
  by (simp add: rolling_def)

lemma rolling_Fin_nth:
  "i < length rs \<Longrightarrow> rolling w m agg (map Fin rs) ! i =
     (if m \<le> min w (Suc i) then agg (map Fin (window_at w rs i)) else NaN)"
  by (simp add: rolling_nth window_at_map observations_Fin length_window_at Let_def)

lemma roll_mean_Fin_nth:
  assumes "i < length rs" "1 \<le> w"
  shows "roll_mean w 1 (map Fin rs) ! i = Fin (sum_list (window_at w rs i) / real (min w (Suc i)))"
proof -
  have ne: "window_at w rs i \<noteq> []"
    using assms length_window_at[of i rs w] by (cases "window_at w rs i") auto
  show ?thesis
    using assms ne by (simp add: roll_mean_def rolling_Fin_nth mean_obs_Fin length_window_at)
qed

lemma length_gains: "length (gains cs) = length cs"
  by (simp add: gains_def)

lemma length_losses: "length (losses cs) = length cs"
  by (simp add: losses_def)

lemma length_diff1: "length (diff1 s) = length s"
  by (cases s) (simp_all add: diff1_def)

lemma diff1_Fin_nth:
  "i < length cs \<Longrightarrow>
   diff1 (map Fin cs) ! i = (if i = 0 then NaN else Fin (cs ! i - cs ! (i - 1)))"
proof (cases cs)
  case Nil
  then show "i < length cs \<Longrightarrow> ?thesis" by simp
next
  case (Cons c t)
  assume "i < length cs"
  then show ?thesis
    using Cons by (cases i) (simp_all add: diff1_def fsub_def nth_Cons')
qed

lemma length_rsi_gain: "length (rsi_gain s) = length s"
  by (simp add: rsi_gain_def Let_def rsi_delta_def where_series_def series_gt_def length_diff1)

lemma length_rsi_loss: "length (rsi_loss s) = length s"
  by (simp add: rsi_loss_def Let_def rsi_delta_def where_series_def series_lt_def series_neg_def length_diff1)

lemma rsi_gain_Fin: "rsi_gain (map Fin cs) = map Fin (gains cs)"
proof (rule nth_equalityI)
  show "length (rsi_gain (map Fin cs)) = length (map Fin (gains cs))"
    by (simp add: length_rsi_gain gains_def)
next
  fix i assume "i < length (rsi_gain (map Fin cs))"
  then have i: "i < length cs" by (simp add: length_rsi_gain)
  then show "rsi_gain (map Fin cs) ! i = map Fin (gains cs) ! i"
    by (simp add: rsi_gain_def Let_def rsi_delta_def where_series_def series_gt_def length_diff1
        diff1_Fin_nth gains_def price_move_def fgt_def max_def)
qed

lemma rsi_loss_Fin: "rsi_loss (map Fin cs) = map Fin (losses cs)"
proof (rule nth_equalityI)
  show "length (rsi_loss (map Fin cs)) = length (map Fin (losses cs))"
    by (simp add: length_rsi_loss losses_def)
next
  fix i assume "i < length (rsi_loss (map Fin cs))"
  then have i: "i < length cs" by (simp add: length_rsi_loss)
  then show "rsi_loss (map Fin cs) ! i = map Fin (losses cs) ! i"
    by (simp add: rsi_loss_def Let_def rsi_delta_def where_series_def series_lt_def series_neg_def
        length_diff1 diff1_Fin_nth losses_def price_move_def max_def)
qed

lemma length_rsi_avg_gain: "length (rsi_avg_gain s p) = length s"
  by (simp add: rsi_avg_gain_def roll_mean_def length_rolling length_rsi_gain)

lemma length_rsi_avg_loss: "length (rsi_avg_loss s p) = length s"
  by (simp add: rsi_avg_loss_def roll_mean_def length_rolling length_rsi_loss)

lemma length_calculate_rsi: "length (calculate_rsi s p) = length s"
  by (simp add: calculate_rsi_def Let_def scalar_sub_def scalar_div_def scalar_add_def
      series_div_def length_rsi_avg_gain length_rsi_avg_loss)

lemma calculate_rsi_nth:
  "i < length s \<Longrightarrow>
   calculate_rsi s p ! i = rsi_point (rsi_avg_gain s p ! i) (rsi_avg_loss s p ! i)"
  by (simp add: calculate_rsi_def Let_def scalar_sub_def scalar_div_def scalar_add_def
      series_div_def length_rsi_avg_gain length_rsi_avg_loss rsi_point_def)

lemma rsi_avg_gain_Fin_nth:
  "i < length cs \<Longrightarrow> 1 \<le> p \<Longrightarrow>
   rsi_avg_gain (map Fin cs) p ! i = Fin (sum_list (window_at p (gains cs) i) / real (min p (Suc i)))"
  using roll_mean_Fin_nth[of i "gains cs" p]
  by (simp add: rsi_avg_gain_def rsi_gain_Fin length_gains)

lemma rsi_avg_loss_Fin_nth:
  "i < length cs \<Longrightarrow> 1 \<le> p \<Longrightarrow>
   rsi_avg_loss (map Fin cs) p ! i = Fin (sum_list (window_at p (losses cs) i) / real (min p (Suc i)))"
  using roll_mean_Fin_nth[of i "losses cs" p]
  by (simp add: rsi_avg_loss_def rsi_loss_Fin length_losses)

lemma rsi_point_cases:
  assumes "0 \<le> g" "0 \<le> l"
  shows "rsi_point (Fin g) (Fin l) =
     (if l = 0 then (if g = 0 then NaN else Fin 100) else Fin (100 - 100 / (1 + g / l)))"
proof -
  have "1 + g / l \<noteq> 0" if "l \<noteq> 0"
  proof -
    have "0 \<le> g / l" using assms by simp
    then show ?thesis by linarith
  qed
  then show ?thesis using assms by (auto simp: rsi_point_def fsub_def)
qed

lemma gains_nonneg: "x \<in> set (gains cs) \<Longrightarrow> 0 \<le> x"
  by (auto simp: gains_def)

lemma losses_nonneg: "x \<in> set (losses cs) \<Longrightarrow> 0 \<le> x"
  by (auto simp: losses_def)

lemma set_window_subset: "set (window_at w xs i) \<subseteq> set xs"
  unfolding window_at_def by (meson set_drop_subset set_take_subset subset_trans)

lemma window_gains_sum_nonneg: "0 \<le> sum_list (window_at p (gains cs) i)"
  using set_window_subset[of p "gains cs" i] gains_nonneg[of _ cs]
  by (intro sum_list_nonneg) blast

lemma window_losses_sum_nonneg: "0 \<le> sum_list (window_at p (losses cs) i)"
  using set_window_subset[of p "losses cs" i] losses_nonneg[of _ cs]
  by (intro sum_list_nonneg) blast

lemma window_gains_zero_iff:
  assumes "i < length cs"
  shows "sum_list (window_at p (gains cs) i) = 0 \<longleftrightarrow>
         (\<forall>j. Suc i - p \<le> j \<and> j \<le> i \<and> 0 < j \<longrightarrow> cs ! j \<le> cs ! (j - 1))"
proof -
  have "sum_list (window_at p (gains cs) i) = 0 \<longleftrightarrow> (\<forall>x \<in> set (window_at p (gains cs) i). x = 0)"
    using set_window_subset[of p "gains cs" i] gains_nonneg[of _ cs]
    by (intro sum_list_nonneg_eq_0_iff) blast
  also have "\<dots> \<longleftrightarrow> (\<forall>j. Suc i - p \<le> j \<and> j \<le> i \<longrightarrow> gains cs ! j = 0)"
    using assms by (auto simp: set_window_at length_gains)
  also have "\<dots> \<longleftrightarrow> (\<forall>j. Suc i - p \<le> j \<and> j \<le> i \<and> 0 < j \<longrightarrow> cs ! j \<le> cs ! (j - 1))"
  proof -
    have "gains cs ! j = 0 \<longleftrightarrow> (0 < j \<longrightarrow> cs ! j \<le> cs ! (j - 1))" if "j \<le> i" for j
      using that assms by (auto simp: gains_def price_move_def max_def)
    then show ?thesis by blast
  qed
  finally show ?thesis .
qed

lemma window_losses_zero_iff:
  assumes "i < length cs"
  shows "sum_list (window_at p (losses cs) i) = 0 \<longleftrightarrow>
         (\<forall>j. Suc i - p \<le> j \<and> j \<le> i \<and> 0 < j \<longrightarrow> cs ! (j - 1) \<le> cs ! j)"
proof -
  have "sum_list (window_at p (losses cs) i) = 0 \<longleftrightarrow> (\<forall>x \<in> set (window_at p (losses cs) i). x = 0)"
    using set_window_subset[of p "losses cs" i] losses_nonneg[of _ cs]
    by (intro sum_list_nonneg_eq_0_iff) blast
  also have "\<dots> \<longleftrightarrow> (\<forall>j. Suc i - p \<le> j \<and> j \<le> i \<longrightarrow> losses cs ! j = 0)"
    using assms by (auto simp: set_window_at length_losses)
  also have "\<dots> \<longleftrightarrow> (\<forall>j. Suc i - p \<le> j \<and> j \<le> i \<and> 0 < j \<longrightarrow> cs ! (j - 1) \<le> cs ! j)"
  proof -
    have "losses cs ! j = 0 \<longleftrightarrow> (0 < j \<longrightarrow> cs ! (j - 1) \<le> cs ! j)" if "j \<le> i" for j
      using that assms by (auto simp: losses_def price_move_def max_def)
    then show ?thesis by blast
  qed
  finally show ?thesis .
qed

lemma rsi_ratio_scale:
  fixes n G L :: real
  assumes "0 < n"
  shows "(if L / n = 0 then (if G / n = 0 then A else B)
          else Fin (100 - 100 / (1 + (G / n) / (L / n)))) =
         (if L = 0 then (if G = 0 then A else B) else Fin (100 - 100 / (1 + G / L)))"
  using assms by simp

lemma calculate_rsi_Fin_nth:
  assumes "i < length cs" "1 \<le> p"
  shows "calculate_rsi (map Fin cs) p ! i =
     (let G = sum_list (window_at p (gains cs) i); L = sum_list (window_at p (losses cs) i)
      in if L = 0 then (if G = 0 then NaN else Fin 100) else Fin (100 - 100 / (1 + G / L)))"
proof -
  let ?n = "real (min p (Suc i))"
  let ?G = "sum_list (window_at p (gains cs) i)"
  let ?L = "sum_list (window_at p (losses cs) i)"
  have n: "0 < ?n" using assms by simp
  have G: "0 \<le> ?G" by (rule window_gains_sum_nonneg)
  have L: "0 \<le> ?L" by (rule window_losses_sum_nonneg)
  have "calculate_rsi (map Fin cs) p ! i = rsi_point (Fin (?G / ?n)) (Fin (?L / ?n))"
    using assms by (simp add: calculate_rsi_nth rsi_avg_gain_Fin_nth rsi_avg_loss_Fin_nth)
  also have "\<dots> = (if ?L / ?n = 0 then (if ?G / ?n = 0 then NaN else Fin 100)
                    else Fin (100 - 100 / (1 + (?G / ?n) / (?L / ?n))))"
    using G L n by (intro rsi_point_cases) simp_all
  also have "\<dots> = (if ?L = 0 then (if ?G = 0 then NaN else Fin 100) else Fin (100 - 100 / (1 + ?G / ?L)))"
    using n by (rule rsi_ratio_scale)
  finally show ?thesis by (simp add: Let_def)
qed

lemma std_real_nonneg: "0 \<le> std_real rs"
proof -
  have "0 \<le> sum_list (map (\<lambda>x. (x - mean_real rs) * (x - mean_real rs)) rs)"
    by (rule sum_list_nonneg) auto
  then show ?thesis by (simp add: std_real_def)
qed

lemma std_obs_Fin:
  assumes "2 \<le> length rs"
  shows "std_obs (map Fin rs) = Fin (std_real rs)"
proof -
  have ne: "rs \<noteq> []" using assms by auto
  have m: "mean_obs (map Fin rs) = Fin (mean_real rs)"
    using ne by (simp add: mean_obs_Fin mean_real_def)
  have sq: "map (\<lambda>v. fmul (fsub v (Fin (mean_real rs))) (fsub v (Fin (mean_real rs)))) (map Fin rs)
        = map Fin (map (\<lambda>x. (x - mean_real rs) * (x - mean_real rs)) rs)"
    by (simp add: fsub_def)
  have nn: "0 \<le> sum_list (map (\<lambda>x. (x - mean_real rs) * (x - mean_real rs)) rs)"
    by (rule sum_list_nonneg) auto
  have d: "real (length rs - 1) \<noteq> 0" using assms by simp
  have "std_obs (map Fin rs) =
        fsqrt (fdiv (Fin (sum_list (map (\<lambda>x. (x - mean_real rs) * (x - mean_real rs)) rs)))
                    (Fin (real (length rs - 1))))"
    using assms unfolding std_obs_def Let_def m sq fsum_Fin by simp
  also have "\<dots> = Fin (std_real rs)"
    using d nn by (simp add: std_real_def not_less)
  finally show ?thesis .
qed

lemma fsqrt_Fin_nonneg: "fsqrt v = Fin r \<Longrightarrow> 0 \<le> r"
  by (cases v) (auto split: if_splits)

lemma std_obs_nonneg: "std_obs obs = Fin r \<Longrightarrow> 0 \<le> r"
  by (auto simp: std_obs_def Let_def split: if_splits dest: fsqrt_Fin_nonneg)

lemma roll_std_nonneg: "i < length s \<Longrightarrow> roll_std w m s ! i = Fin r \<Longrightarrow> 0 \<le> r"
  by (auto simp: roll_std_def rolling_nth Let_def split: if_splits dest: std_obs_nonneg)

lemma length_roll_mean: "length (roll_mean w m s) = length s"
  by (simp add: roll_mean_def length_rolling)

lemma length_roll_std: "length (roll_std w m s) = length s"
  by (simp add: roll_std_def length_rolling)

lemma length_close_column: "length (close_column data) = length data"
  by (simp add: close_column_def)

lemma length_Upper: "length (Upper (calculate_bbands data w k)) = length data"
  by (simp add: calculate_bbands_def Let_def series_add_def series_mul_scalar_def
      length_roll_mean length_roll_std length_close_column)

lemma length_Lower: "length (Lower (calculate_bbands data w k)) = length data"
  by (simp add: calculate_bbands_def Let_def series_sub_def series_mul_scalar_def
      length_roll_mean length_roll_std length_close_column)

lemma Upper_nth:
  "i < length data \<Longrightarrow>
   Upper (calculate_bbands data w k) ! i =
     fadd (roll_mean w w (close_column data) ! i) (fmul (roll_std w w (close_column data) ! i) (Fin k))"
  by (simp add: calculate_bbands_def Let_def series_add_def series_mul_scalar_def
      length_roll_mean length_roll_std length_close_column)

lemma Lower_nth:
  "i < length data \<Longrightarrow>
   Lower (calculate_bbands data w k) ! i =
     fsub (roll_mean w w (close_column data) ! i) (fmul (roll_std w w (close_column data) ! i) (Fin k))"
  by (simp add: calculate_bbands_def Let_def series_sub_def series_mul_scalar_def
      length_roll_mean length_roll_std length_close_column)

lemma roll_mean_strict_Fin_nth:
  assumes "i < length cs" "1 \<le> w"
  shows "roll_mean w w (map Fin cs) ! i =
     (if w \<le> Suc i then Fin (mean_real (window_at w cs i)) else NaN)"
proof -
  have ne: "window_at w cs i \<noteq> []"
    using assms length_window_at[of i cs w] by (cases "window_at w cs i") auto
  show ?thesis
    using assms ne by (simp add: roll_mean_def rolling_Fin_nth mean_obs_Fin mean_real_def)
qed

lemma roll_std_strict_Fin_nth:
  assumes "i < length cs" "2 \<le> w"
  shows "roll_std w w (map Fin cs) ! i =
     (if w \<le> Suc i then Fin (std_real (window_at w cs i)) else NaN)"
proof (cases "w \<le> Suc i")
  case True
  then have "2 \<le> length (window_at w cs i)"
    using assms by (simp add: length_window_at)
  then show ?thesis
    using assms True by (simp add: roll_std_def rolling_Fin_nth std_obs_Fin)
next
  case False
  then show ?thesis using assms by (simp add: roll_std_def rolling_Fin_nth)
qed

lemma band_order:
  assumes "fadd a (fmul b (Fin k)) = Fin u" "fsub a (fmul b (Fin k)) = Fin l"
    and "\<And>r. b = Fin r \<Longrightarrow> 0 \<le> r" and "0 \<le> k"
  shows "l \<le> u"
proof -
  obtain m where a: "a = Fin m" using assms(1) by (cases a; cases "fmul b (Fin k)") auto
  obtain r where b: "b = Fin r" using assms(1) a by (cases b) (auto split: if_splits)
  have "0 \<le> r * k" using assms(3)[OF b] assms(4) by simp
  moreover have "u = m + r * k" "l = m - r * k" using assms(1,2) a b by (auto simp: fsub_def)
  ultimately show ?thesis by simp
qed

lemma flat_window_iff:
  "flat_window p cs i \<longleftrightarrow> (\<forall>j. Suc i - p \<le> j \<and> j \<le> i \<and> 0 < j \<longrightarrow> cs ! j = cs ! (j - 1))"
  by (auto simp: flat_window_def list_all_iff less_Suc_eq_le)

lemma flat_window_sums:
  assumes "i < length cs"
  shows "flat_window p cs i \<longleftrightarrow>
     sum_list (window_at p (gains cs) i) = 0 \<and> sum_list (window_at p (losses cs) i) = 0"
  unfolding flat_window_iff window_gains_zero_iff[OF assms] window_losses_zero_iff[OF assms]
  by (auto intro: antisym)

lemma calculate_rsi_NaN_iff:
  assumes "i < length cs" "1 \<le> p"
  shows "calculate_rsi (map Fin cs) p ! i = NaN \<longleftrightarrow> flat_window p cs i"
  using assms by (simp add: calculate_rsi_Fin_nth flat_window_sums Let_def)

lemma rsi_index0:
  assumes "0 < length cs" "1 \<le> p"
  shows "calculate_rsi (map Fin cs) p ! 0 = NaN"
proof -
  have "flat_window p cs 0" by (simp add: flat_window_iff)
  then show ?thesis using assms by (simp add: calculate_rsi_NaN_iff)
qed

lemma rsi_uptrend:
  assumes "i < length cs" "0 < i" "1 \<le> p"
    and up: "\<And>j. 0 < j \<Longrightarrow> j \<le> i \<Longrightarrow> cs ! (j - 1) < cs ! j"
  shows "calculate_rsi (map Fin cs) p ! i = Fin 100"
proof -
  have L: "sum_list (window_at p (losses cs) i) = 0"
    unfolding window_losses_zero_iff[OF assms(1)] using up by (auto intro: less_imp_le)
  have "\<not> (\<forall>j. Suc i - p \<le> j \<and> j \<le> i \<and> 0 < j \<longrightarrow> cs ! j \<le> cs ! (j - 1))"
  proof
    assume a: "\<forall>j. Suc i - p \<le> j \<and> j \<le> i \<and> 0 < j \<longrightarrow> cs ! j \<le> cs ! (j - 1)"
    have "Suc i - p \<le> i" using assms(3) by simp
    with a assms(2) have "cs ! i \<le> cs ! (i - 1)" by blast
    moreover have "cs ! (i - 1) < cs ! i" using up[of i] assms(2) by simp
    ultimately show False by simp
  qed
  then have G: "sum_list (window_at p (gains cs) i) \<noteq> 0"
    unfolding window_gains_zero_iff[OF assms(1)] .
  show ?thesis using assms(1,3) L G by (simp add: calculate_rsi_Fin_nth Let_def)
qed

lemma close_column_bars: "close_column (map bar cs) = map Fin cs"
  by (simp add: close_column_def bar_def comp_def)

lemma bands_Fin_nth:
  assumes c: "close_column data = map Fin cs" and i: "i < length data" and w: "2 \<le> w"
  shows "Upper (calculate_bbands data w k) ! i =
           (if w \<le> Suc i
            then Fin (mean_real (window_at w cs i) + std_real (window_at w cs i) * k) else NaN)"
    and "Lower (calculate_bbands data w k) ! i =
           (if w \<le> Suc i
            then Fin (mean_real (window_at w cs i) - std_real (window_at w cs i) * k) else NaN)"
proof -
  have lc: "i < length cs" using c i length_close_column[of data] by simp
  have w1: "1 \<le> w" using w by simp
  show "Upper (calculate_bbands data w k) ! i =
           (if w \<le> Suc i
            then Fin (mean_real (window_at w cs i) + std_real (window_at w cs i) * k) else NaN)"
    using i by (simp add: Upper_nth c roll_mean_strict_Fin_nth[OF lc w1] roll_std_strict_Fin_nth[OF lc w])
  show "Lower (calculate_bbands data w k) ! i =
           (if w \<le> Suc i
            then Fin (mean_real (window_at w cs i) - std_real (window_at w cs i) * k) else NaN)"
    using i by (simp add: Lower_nth c roll_mean_strict_Fin_nth[OF lc w1] roll_std_strict_Fin_nth[OF lc w] fsub_def)
qed

lemma sample_window: "window_at 20 sample_closes 19 =
    [13, 7, 13, 7, 13, 7, 13, 7, 11, 9, 11, 9, 10, 10, 10, 10, 10, 10, 10, 10]"
  by (simp add: window_at_def sample_closes_def)

lemma sample_mean: "mean_real (window_at 20 sample_closes 19) = 10"
  by (simp add: sample_window mean_real_def)

lemma sample_std: "std_real (window_at 20 sample_closes 19) = 2"
  by (simp add: std_real_def sample_mean) (simp add: sample_window)

lemma blank_overlay_free:
  "pp_addplot p = [] \<Longrightarrow> refuses_blank_overlay p = None"
  by (simp add: refuses_blank_overlay_def)

lemma plot_data_no_indicator:
  "\<not> show_rsi self \<Longrightarrow> \<not> show_bbands self \<Longrightarrow> pp_addplot (plot_data self data) = []"
  by (simp add: plot_data_def get_indicators_def Let_def split: option.splits)

lemma pp_addplot_plot_data: "pp_addplot (plot_data self data) = get_indicators self data"
  by (simp add: plot_data_def Let_def split: option.splits)

lemma short_table_bands_blank:
  assumes "length data < 20"
  shows "list_all (\<lambda>v. v = NaN) (Upper (calculate_bbands data 20 2))"
proof -
  have "Upper (calculate_bbands data 20 2) ! i = NaN" if "i < length data" for i
  proof -
    have "length (observations (window_at 20 (close_column data) i)) \<le> Suc i"
      by (simp add: observations_def window_at_def le_trans[OF length_filter_le])
    then have "\<not> 20 \<le> length (observations (window_at 20 (close_column data) i))"
      using that assms by simp
    then have "roll_mean 20 20 (close_column data) ! i = NaN"
      using that by (simp add: roll_mean_def rolling_nth length_close_column Let_def)
    then show ?thesis using that by (simp add: Upper_nth)
  qed
  then show ?thesis by (simp add: list_all_length length_Upper)
qed

lemma short_table_refused:
  assumes "show_bbands self" "length data < 20"
  shows "refuses_blank_overlay (plot_data self data) = Some ''overlay without a number''"
proof -
  have "make_addplot (Upper (calculate_bbands data 20 2)) None ''red'' None
          \<in> set (get_indicators self data)"
    using assms(1) by (simp add: get_indicators_def Let_def)
  moreover have "list_all (\<lambda>v. v = NaN)
      (ap_data (make_addplot (Upper (calculate_bbands data 20 2)) None ''red'' None))"
    using short_table_bands_blank[OF assms(2)] by (simp add: make_addplot_def)
  ultimately have "list_ex (\<lambda>a. list_all (\<lambda>v. v = NaN) (ap_data a)) (get_indicators self data)"
    unfolding list_ex_iff by blast
  then show ?thesis by (simp add: refuses_blank_overlay_def pp_addplot_plot_data)
qed

lemma has_number: "i < length xs \<Longrightarrow> xs ! i \<noteq> NaN \<Longrightarrow> \<not> list_all (\<lambda>v. v = NaN) xs"
  by (auto simp: list_all_length)

lemma sample_table_drawn:
  "refuses_blank_overlay (plot_data app_rsi_bbands_ma5 (map bar sample_closes)) = None"
proof -
  let ?data = "map bar sample_closes"
  have n: "length sample_closes = 21" by (simp add: sample_closes_def)
  have c: "close_column ?data = map Fin sample_closes" by (rule close_column_bars)
  have "\<not> flat_window 14 sample_closes 1" by (simp add: flat_window_def sample_closes_def)
  then have "calculate_rsi (map Fin sample_closes) 14 ! 1 \<noteq> NaN"
    by (simp add: calculate_rsi_NaN_iff n)
  then have r: "\<not> list_all (\<lambda>v. v = NaN) (calculate_rsi (close_column ?data) 14)"
    unfolding c by (intro has_number[of 1]) (simp_all add: length_calculate_rsi n)
  have "Upper (calculate_bbands ?data 20 2) ! 19 \<noteq> NaN" "Lower (calculate_bbands ?data 20 2) ! 19 \<noteq> NaN"
    using bands_Fin_nth[OF c, of 19 20 2] by (simp_all add: n)
  then have u: "\<not> list_all (\<lambda>v. v = NaN) (Upper (calculate_bbands ?data 20 2))"
    and l: "\<not> list_all (\<lambda>v. v = NaN) (Lower (calculate_bbands ?data 20 2))"
    using has_number[of 19 "Upper (calculate_bbands ?data 20 2)"]
      has_number[of 19 "Lower (calculate_bbands ?data 20 2)"]
    by (simp_all add: length_Upper length_Lower n)
  have "get_indicators app_rsi_bbands_ma5 ?data =
          [make_addplot (calculate_rsi (close_column ?data) 14) (Some PanelLower) ''blue'' (Some ''RSI''),
           make_addplot (Upper (calculate_bbands ?data 20 2)) None ''red'' None,
           make_addplot (Lower (calculate_bbands ?data 20 2)) None ''red'' None]"
    by (simp add: get_indicators_def app_rsi_bbands_ma5_def Let_def)
  then show ?thesis
    using r u l by (simp add: refuses_blank_overlay_def pp_addplot_plot_data make_addplot_def)
qed

section \<open>Relative Strength Index\<close>




text \<open>
  Claim C2. At every index where the average gain and the average loss are both exactly
  0, RSI is NaN, the marker of a missing value, and so none of 0, 50 or 100; this holds
  for every series and period. For a price series of real numbers the two averages are
  both 0 at every index whose window holds no movement.
\<close>

theorem rsi_flat_window_undefined:
  "(i < length s \<and> rsi_avg_gain s p ! i = Fin 0 \<and> rsi_avg_loss s p ! i = Fin 0
      \<longrightarrow> calculate_rsi s p ! i = NaN)
   \<and> (k < length cs \<and> flat_window 14 cs k
      \<longrightarrow> rsi_avg_gain (map Fin cs) 14 ! k = Fin 0
        \<and> rsi_avg_loss (map Fin cs) 14 ! k = Fin 0
        \<and> calculate_rsi (map Fin cs) 14 ! k = NaN)"
proof -
  have a: "calculate_rsi s p ! i = NaN"
    if "i < length s" "rsi_avg_gain s p ! i = Fin 0" "rsi_avg_loss s p ! i = Fin 0"
    using that by (simp add: calculate_rsi_nth rsi_point_def fsub_def)
  have b: "rsi_avg_gain (map Fin cs) 14 ! k = Fin 0
        \<and> rsi_avg_loss (map Fin cs) 14 ! k = Fin 0
        \<and> calculate_rsi (map Fin cs) 14 ! k = NaN"
    if "k < length cs" "flat_window 14 cs k"
  proof -
    from that have z: "sum_list (window_at 14 (gains cs) k) = 0"
      "sum_list (window_at 14 (losses cs) k) = 0"
      by (simp_all add: flat_window_sums)
    from that(1) z show ?thesis
      by (simp add: rsi_avg_gain_Fin_nth rsi_avg_loss_Fin_nth calculate_rsi_NaN_iff that(2))
  qed
  from a b show ?thesis by blast
qed

text \<open>Claim C2 on three equal closes, and on a move followed by fifteen equal closes.\<close>

theorem rsi_flat_window_undefined_witness:
  "rsi_avg_gain (map Fin [7, 7, 7]) 14 ! 2 = Fin 0
   \<and> rsi_avg_loss (map Fin [7, 7, 7]) 14 ! 2 = Fin 0
   \<and> calculate_rsi (map Fin [7, 7, 7]) 14 ! 2 = NaN
   \<and> flat_window 14 [1, 2, 2, 2, 2, 2, 2, 2, 2, 2, 2, 2, 2, 2, 2, 2] 15
   \<and> calculate_rsi (map Fin [1, 2, 2, 2, 2, 2, 2, 2, 2, 2, 2, 2, 2, 2, 2, 2]) 14 ! 15 = NaN"
proof -
  have i: "(2::nat) < length (map Fin [7, 7, 7 :: real])" by simp
  have g: "rsi_avg_gain (map Fin [7, 7, 7]) 14 ! 2 = Fin 0" by code_simp
  have l: "rsi_avg_loss (map Fin [7, 7, 7]) 14 ! 2 = Fin 0" by code_simp
  have j: "(15::nat) < length [1, 2, 2, 2, 2, 2, 2, 2, 2, 2, 2, 2, 2, 2, 2, 2 :: real]" by simp
  have f: "flat_window 14 [1, 2, 2, 2, 2, 2, 2, 2, 2, 2, 2, 2, 2, 2, 2, 2] 15" by code_simp
  show ?thesis
    using rsi_flat_window_undefined
      [of 2 "map Fin [7, 7, 7]" 14 15 "[1, 2, 2, 2, 2, 2, 2, 2, 2, 2, 2, 2, 2, 2, 2, 2]"] i g l j f
    by blast
qed

text \<open>
  Claim C3. At every index where the average loss is 0 and the average gain is a number
  other than 0, RSI is exactly 100. For the closes 1, 2, ..., 30 the RSI series has length
  30, is NaN at index 0 and is 100 at the indices 1 to 29.
\<close>

theorem rsi_no_loss_is_100:
  "(i < length s \<and> rsi_avg_loss s p ! i = Fin 0 \<and> rsi_avg_gain s p ! i = Fin g \<and> g \<noteq> 0
      \<longrightarrow> calculate_rsi s p ! i = Fin 100)
   \<and> length (calculate_rsi (map Fin (map real [1..<31])) 14) = 30
   \<and> calculate_rsi (map Fin (map real [1..<31])) 14 ! 0 = NaN
   \<and> (\<forall>k. 1 \<le> k \<and> k \<le> 29 \<longrightarrow> calculate_rsi (map Fin (map real [1..<31])) 14 ! k = Fin 100)"
proof -
  have a: "calculate_rsi s p ! i = Fin 100"
    if "i < length s" "rsi_avg_loss s p ! i = Fin 0" "rsi_avg_gain s p ! i = Fin g" "g \<noteq> 0"
    using that by (simp add: calculate_rsi_nth rsi_point_def fsub_def)
  have len: "length (calculate_rsi (map Fin (map real [1..<31])) 14) = 30"
    by (simp add: length_calculate_rsi)
  have zero: "calculate_rsi (map Fin (map real [1..<31])) 14 ! 0 = NaN"
    by (rule rsi_index0) simp_all
  have up: "calculate_rsi (map Fin (map real [1..<31])) 14 ! k = Fin 100" if "1 \<le> k" "k \<le> 29" for k
  proof (rule rsi_uptrend)
    show "k < length (map real [1..<31])" using that by simp
    show "0 < k" using that by simp
    show "1 \<le> (14::nat)" by simp
    fix j :: nat assume "0 < j" "j \<le> k"
    then show "map real [1..<31] ! (j - 1) < map real [1..<31] ! j" using that by simp
  qed
  from a len zero up show ?thesis by blast
qed

text \<open>Claim C3 on the closes 1, 3 at index 1, and on the 30 rising closes at index 17.\<close>

theorem rsi_no_loss_is_100_witness:
  "rsi_avg_loss (map Fin [1, 3]) 14 ! 1 = Fin 0
   \<and> rsi_avg_gain (map Fin [1, 3]) 14 ! 1 = Fin 1
   \<and> calculate_rsi (map Fin [1, 3]) 14 ! 1 = Fin 100
   \<and> calculate_rsi (map Fin (map real [1..<31])) 14 ! 17 = Fin 100"
proof -
  have i: "(1::nat) < length (map Fin [1, 3 :: real])" by simp
  have l: "rsi_avg_loss (map Fin [1, 3]) 14 ! 1 = Fin 0" by code_simp
  have g: "rsi_avg_gain (map Fin [1, 3]) 14 ! 1 = Fin 1" by code_simp
  have n: "(1::real) \<noteq> 0" by simp
  have k: "(1::nat) \<le> 17 \<and> (17::nat) \<le> 29" by simp
  show ?thesis
    using rsi_no_loss_is_100 [of 1 "map Fin [1, 3]" 14 1] i l g n k by blast
qed

text \<open>
  Claim C4. For every price series of real numbers, a number at an index of the RSI
  series lies between 0 and 100.
\<close>

theorem rsi_bounded:
  assumes "i < length cs" "calculate_rsi (map Fin cs) 14 ! i = Fin r"
  shows "0 \<le> r \<and> r \<le> 100"
proof -
  let ?G = "sum_list (window_at 14 (gains cs) i)"
  let ?L = "sum_list (window_at 14 (losses cs) i)"
  have G: "0 \<le> ?G" by (rule window_gains_sum_nonneg)
  have L: "0 \<le> ?L" by (rule window_losses_sum_nonneg)
  show ?thesis
  proof (cases "?L = 0")
    case True
    then show ?thesis using assms by (simp add: calculate_rsi_Fin_nth Let_def split: if_splits)
  next
    case False
    then have r: "r = 100 - 100 / (1 + ?G / ?L)"
      using assms by (simp add: calculate_rsi_Fin_nth Let_def)
    have q: "0 \<le> ?G / ?L" using G L by simp
    then have "1 \<le> 1 + ?G / ?L" by simp
    then have "100 / (1 + ?G / ?L) \<le> 100" "0 \<le> 100 / (1 + ?G / ?L)"
      by (simp_all add: field_simps)
    then show ?thesis using r by simp
  qed
qed

text \<open>Claim C4 on the closes 1, 2, 2, 1, where RSI at index 3 is 50.\<close>

theorem rsi_bounded_witness:
  "(3::nat) < length [1, 2, 2, 1 :: real]
   \<and> calculate_rsi (map Fin [1, 2, 2, 1]) 14 ! 3 = Fin 50
   \<and> (0::real) \<le> 50 \<and> (50::real) \<le> 100"
proof -
  have i: "(3::nat) < length [1, 2, 2, 1 :: real]" by simp
  have e: "calculate_rsi (map Fin [1, 2, 2, 1]) 14 ! 3 = Fin 50" by code_simp
  show ?thesis using rsi_bounded [OF i e] i e by blast
qed

section \<open>Bollinger Bands\<close>

text \<open>
  Claim C5. For every table whose closes are real numbers, both bands (window 20) are as
  long as the table, are NaN at every index below 19 and are numbers at every index from
  19 on: the window is strict, with no shorter window at the start.
\<close>

theorem bbands_defined_from_window:
  assumes "close_column data = map Fin cs" "i < length data"
  shows "length (Upper (calculate_bbands data 20 2)) = length data
       \<and> length (Lower (calculate_bbands data 20 2)) = length data
       \<and> (i < 19 \<longrightarrow> Upper (calculate_bbands data 20 2) ! i = NaN
                    \<and> Lower (calculate_bbands data 20 2) ! i = NaN)
       \<and> (19 \<le> i \<longrightarrow> (\<exists>u l. Upper (calculate_bbands data 20 2) ! i = Fin u
                          \<and> Lower (calculate_bbands data 20 2) ! i = Fin l))"
  using assms by (simp add: length_Upper length_Lower bands_Fin_nth)

text \<open>Claim C5 on the table of 21 sample closes, at the indices 18, 19 and 20.\<close>

theorem bbands_defined_from_window_witness:
  "Upper (calculate_bbands (map bar sample_closes) 20 2) ! 18 = NaN
   \<and> Lower (calculate_bbands (map bar sample_closes) 20 2) ! 18 = NaN
   \<and> Upper (calculate_bbands (map bar sample_closes) 20 2) ! 19 \<noteq> NaN
   \<and> Lower (calculate_bbands (map bar sample_closes) 20 2) ! 19 \<noteq> NaN
   \<and> Upper (calculate_bbands (map bar sample_closes) 20 2) ! 20 \<noteq> NaN
   \<and> length (Upper (calculate_bbands (map bar sample_closes) 20 2)) = 21"
proof -
  have c: "close_column (map bar sample_closes) = map Fin sample_closes"
    by (rule close_column_bars)
  have n: "length sample_closes = 21" by (simp add: sample_closes_def)
  have i18: "18 < length (map bar sample_closes)"
    and i19: "19 < length (map bar sample_closes)"
    and i20: "20 < length (map bar sample_closes)" by (simp_all add: n)
  show ?thesis
    using bbands_defined_from_window [OF c i18] bbands_defined_from_window [OF c i19]
      bbands_defined_from_window [OF c i20] n
    by auto
qed

text \<open>
  Claim C6. Wherever both bands are numbers, the upper one is at least the lower one,
  for every table. For closes that are real numbers and every index from 19 on, the upper
  band is the mean of the window plus twice its sample standard deviation, the lower band
  the mean minus twice that, and the standard deviation is not negative.
\<close>

theorem bbands_upper_above_lower:
  "(i < length data \<and> Upper (calculate_bbands data 20 2) ! i = Fin u
      \<and> Lower (calculate_bbands data 20 2) ! i = Fin l \<longrightarrow> l \<le> u)
   \<and> (close_column data = map Fin cs \<and> 19 \<le> i \<and> i < length data \<longrightarrow>
        0 \<le> std_real (window_at 20 cs i)
      \<and> Upper (calculate_bbands data 20 2) ! i
          = Fin (mean_real (window_at 20 cs i) + 2 * std_real (window_at 20 cs i))
      \<and> Lower (calculate_bbands data 20 2) ! i
          = Fin (mean_real (window_at 20 cs i) - 2 * std_real (window_at 20 cs i))
      \<and> fle (Lower (calculate_bbands data 20 2) ! i) (Upper (calculate_bbands data 20 2) ! i))"
proof -
  have a: "l \<le> u"
    if "i < length data" "Upper (calculate_bbands data 20 2) ! i = Fin u"
      "Lower (calculate_bbands data 20 2) ! i = Fin l"
  proof (rule band_order)
    show "fadd (roll_mean 20 20 (close_column data) ! i)
            (fmul (roll_std 20 20 (close_column data) ! i) (Fin 2)) = Fin u"
      using that by (simp add: Upper_nth)
    show "fsub (roll_mean 20 20 (close_column data) ! i)
            (fmul (roll_std 20 20 (close_column data) ! i) (Fin 2)) = Fin l"
      using that by (simp add: Lower_nth)
    show "0 \<le> r" if "roll_std 20 20 (close_column data) ! i = Fin r" for r
      using that \<open>i < length data\<close> roll_std_nonneg[of i "close_column data" 20 20 r]
      by (simp add: length_close_column)
    show "(0::real) \<le> 2" by simp
  qed
  have b: "0 \<le> std_real (window_at 20 cs i)
      \<and> Upper (calculate_bbands data 20 2) ! i
          = Fin (mean_real (window_at 20 cs i) + 2 * std_real (window_at 20 cs i))
      \<and> Lower (calculate_bbands data 20 2) ! i
          = Fin (mean_real (window_at 20 cs i) - 2 * std_real (window_at 20 cs i))
      \<and> fle (Lower (calculate_bbands data 20 2) ! i) (Upper (calculate_bbands data 20 2) ! i)"
    if "close_column data = map Fin cs" "19 \<le> i" "i < length data"
    using that std_real_nonneg[of "window_at 20 cs i"]
    by (simp add: bands_Fin_nth fle_def mult.commute)
  from a b show ?thesis by blast
qed

text \<open>Claim C6 on the sample closes at index 19: mean 10, deviation 2, bands 14 and 6.\<close>

theorem bbands_upper_above_lower_witness:
  "Upper (calculate_bbands (map bar sample_closes) 20 2) ! 19 = Fin 14
   \<and> Lower (calculate_bbands (map bar sample_closes) 20 2) ! 19 = Fin 6
   \<and> (6::real) \<le> 14
   \<and> fle (Lower (calculate_bbands (map bar sample_closes) 20 2) ! 19)
          (Upper (calculate_bbands (map bar sample_closes) 20 2) ! 19)"
proof -
  have c: "close_column (map bar sample_closes) = map Fin sample_closes"
    by (rule close_column_bars)
  have i: "19 < length (map bar sample_closes)" by (simp add: sample_closes_def)
  have k: "(19::nat) \<le> 19" by simp
  have b: "Upper (calculate_bbands (map bar sample_closes) 20 2) ! 19 = Fin 14
         \<and> Lower (calculate_bbands (map bar sample_closes) 20 2) ! 19 = Fin 6
         \<and> fle (Lower (calculate_bbands (map bar sample_closes) 20 2) ! 19)
                (Upper (calculate_bbands (map bar sample_closes) 20 2) ! 19)"
    using bbands_upper_above_lower [of 19 "map bar sample_closes" 14 6 sample_closes] c i k
    by (simp add: sample_mean sample_std fle_def)
  then show ?thesis
    using bbands_upper_above_lower [of 19 "map bar sample_closes" 14 6 sample_closes] i
    by (simp add: fle_def)
qed

section \<open>Moving averages and the assembled plot\<close>

text \<open>
  Claim C7. For every setting of the four moving-average boxes, \<open>get_mav\<close> returns
  the lengths of the ticked ones in the order 5, 20, 60, 200, and \<open>None\<close>, never the
  empty list, when none is ticked; a returned list is sorted and without duplicates; with
  MA(5), MA(20) and MA(200) ticked and MA(60) not, the result is \<open>[5, 20, 200]\<close>.
\<close>

theorem get_mav_fixed_order:
  "get_mav self =
     (if show_ma5 self \<or> show_ma20 self \<or> show_ma60 self \<or> show_ma200 self
      then Some (map snd (filter fst
             [(show_ma5 self, 5), (show_ma20 self, 20), (show_ma60 self, 60), (show_ma200 self, 200)]))
      else None)
   \<and> get_mav self \<noteq> Some []
   \<and> (\<forall>xs. get_mav self = Some xs \<longrightarrow> sorted xs \<and> distinct xs \<and> set xs \<subseteq> {5, 20, 60, 200})
   \<and> (show_ma5 self \<and> show_ma20 self \<and> \<not> show_ma60 self \<and> show_ma200 self
        \<longrightarrow> get_mav self = Some [5, 20, 200])"
  by (cases "show_ma5 self"; cases "show_ma20 self"; cases "show_ma60 self";
      cases "show_ma200 self"; simp add: get_mav_def)

text \<open>Claim C7 on the setting with MA(5), MA(20), MA(200) ticked, and on no box ticked.\<close>

theorem get_mav_fixed_order_witness:
  "get_mav app_ma_5_20_200 = Some [5, 20, 200] \<and> get_mav app_default = None"
proof -
  have t: "show_ma5 app_ma_5_20_200 \<and> show_ma20 app_ma_5_20_200
           \<and> \<not> show_ma60 app_ma_5_20_200 \<and> show_ma200 app_ma_5_20_200"
    by (simp add: app_ma_5_20_200_def)
  have f: "\<not> (show_ma5 app_default \<or> show_ma20 app_default
           \<or> show_ma60 app_default \<or> show_ma200 app_default)"
    by (simp add: app_default_def)
  show ?thesis
    using get_mav_fixed_order [of app_ma_5_20_200] get_mav_fixed_order [of app_default] t f
    by simp
qed

text \<open>
  Claim C8. On an empty table the body of \<open>load_data\<close> raises the
  \<open>ValueError\<close> for missing data, for every setting of the boxes and whatever the
  drawing would do, so nothing is computed or plotted, and \<open>load_data\<close> shows that
  message. On every table that is not empty it does not raise that \<open>ValueError\<close>: it
  calls \<open>plot_data\<close>, and an exception there is one from the drawing.
\<close>

theorem empty_series_rejected:
  "load_try mpf_plot self (Inr []) = Inl (ValueError ''No data found for this symbol.'')
   \<and> (symbol_var self \<noteq> [] \<longrightarrow>
        load_data mpf_plot self (Inr []) = ShowError ''Error'' ''No data found for this symbol.'')
   \<and> (data \<noteq> [] \<longrightarrow>
        load_try mpf_plot self (Inr data) = plot_data_call mpf_plot self data
      \<and> (\<forall>m. load_try mpf_plot self (Inr data) \<noteq> Inl (ValueError m))
      \<and> (\<forall>e. load_try mpf_plot self (Inr data) = Inl e \<longrightarrow>
              (\<exists>m. mpf_plot (plot_data self data) = Some m \<and> e = PlotError m)))
   \<and> (data \<noteq> [] \<and> symbol_var self \<noteq> [] \<and> mpf_plot (plot_data self data) = None \<longrightarrow>
        load_data mpf_plot self (Inr data) = Plotted (plot_data self data))
   \<and> (data \<noteq> [] \<and> symbol_var self \<noteq> [] \<and> mpf_plot (plot_data self data) = Some msg \<longrightarrow>
        load_data mpf_plot self (Inr data) = ShowError ''Error'' msg)"
  by (auto simp: load_try_def load_data_def plot_data_call_def Let_def split: option.splits)

text \<open>
  Claim C8 on the empty table, on a table of one row with no overlay, which is drawn, and
  on a table of three rows with Bollinger Bands ticked, where the drawing raises.
\<close>

theorem empty_series_rejected_witness:
  "load_data refuses_blank_overlay app_default (Inr [])
     = ShowError ''Error'' ''No data found for this symbol.''
   \<and> load_data refuses_blank_overlay app_default (Inr [bar 1])
       = Plotted (plot_data app_default [bar 1])
   \<and> load_try refuses_blank_overlay app_rsi_bbands_ma5 (Inr (map bar [1, 2, 3]))
       = Inl (PlotError ''overlay without a number'')
   \<and> load_data refuses_blank_overlay app_rsi_bbands_ma5 (Inr (map bar [1, 2, 3]))
       = ShowError ''Error'' ''overlay without a number''"
proof -
  have s: "symbol_var app_default \<noteq> []" "symbol_var app_rsi_bbands_ma5 \<noteq> []"
    by (simp_all add: app_default_def app_rsi_bbands_ma5_def)
  have d: "[bar 1] \<noteq> []" "map bar [1, 2, 3] \<noteq> []" by simp_all
  have p1: "refuses_blank_overlay (plot_data app_default [bar 1]) = None"
    by (simp add: blank_overlay_free plot_data_no_indicator app_default_def)
  have p3: "refuses_blank_overlay (plot_data app_rsi_bbands_ma5 (map bar [1, 2, 3]))
              = Some ''overlay without a number''"
    by (rule short_table_refused) (simp_all add: app_rsi_bbands_ma5_def)
  have pc: "plot_data_call refuses_blank_overlay app_rsi_bbands_ma5 (map bar [1, 2, 3])
              = Inl (PlotError ''overlay without a number'')"
    by (simp only: plot_data_call_def Let_def p3 option.case)
  note a = empty_series_rejected [of refuses_blank_overlay app_default "[bar 1]"]
  note b = empty_series_rejected [of refuses_blank_overlay app_rsi_bbands_ma5 "map bar [1, 2, 3]"
      "''overlay without a number''"]
  have c1: "load_data refuses_blank_overlay app_default (Inr [])
              = ShowError ''Error'' ''No data found for this symbol.''"
    using a s(1) by blast
  have c2: "load_data refuses_blank_overlay app_default (Inr [bar 1])
              = Plotted (plot_data app_default [bar 1])"
    using a s(1) d(1) p1 by blast
  have "load_try refuses_blank_overlay app_rsi_bbands_ma5 (Inr (map bar [1, 2, 3]))
          = plot_data_call refuses_blank_overlay app_rsi_bbands_ma5 (map bar [1, 2, 3])"
    using b d(2) by blast
  then have c3: "load_try refuses_blank_overlay app_rsi_bbands_ma5 (Inr (map bar [1, 2, 3]))
              = Inl (PlotError ''overlay without a number'')"
    by (simp only: pc)
  have c4: "load_data refuses_blank_overlay app_rsi_bbands_ma5 (Inr (map bar [1, 2, 3]))
              = ShowError ''Error'' ''overlay without a number''"
    using b s(2) d(2) p3 by blast
  from c1 c2 c3 c4 show ?thesis by blast
qed

text \<open>
  Claim C9. With RSI, Bollinger Bands and MA(5) ticked and the other moving averages not,
  the arguments of the plot hold exactly three overlays, in this order: the RSI series on
  the lower panel with the label RSI, then the upper and the lower band on the main
  panel; and the moving-average list \<open>[5]\<close>. This holds for every table. On a table
  that is not empty \<open>load_data\<close> plots nothing else, and plots this when the drawing
  does not raise.
\<close>

theorem three_overlays_and_mav:
  assumes "show_rsi self" "show_bbands self" "show_ma5 self"
    "\<not> show_ma20 self" "\<not> show_ma60 self" "\<not> show_ma200 self"
  shows "pp_addplot (plot_data self data) =
           [make_addplot (calculate_rsi (close_column data) 14) (Some PanelLower) ''blue'' (Some ''RSI''),
            make_addplot (Upper (calculate_bbands data 20 2)) None ''red'' None,
            make_addplot (Lower (calculate_bbands data 20 2)) None ''red'' None]
       \<and> length (pp_addplot (plot_data self data)) = 3
       \<and> map ap_panel (pp_addplot (plot_data self data)) = [PanelLower, PanelMain, PanelMain]
       \<and> map ap_ylabel (pp_addplot (plot_data self data)) = [Some ''RSI'', None, None]
       \<and> pp_mav (plot_data self data) = Some [5]
       \<and> (\<forall>p. load_data mpf_plot self (Inr data) = Plotted p \<longrightarrow> p = plot_data self data)
       \<and> (data \<noteq> [] \<and> symbol_var self \<noteq> [] \<and> mpf_plot (plot_data self data) = None \<longrightarrow>
            load_data mpf_plot self (Inr data) = Plotted (plot_data self data))"
proof -
  have args: "pp_addplot (plot_data self data) =
           [make_addplot (calculate_rsi (close_column data) 14) (Some PanelLower) ''blue'' (Some ''RSI''),
            make_addplot (Upper (calculate_bbands data 20 2)) None ''red'' None,
            make_addplot (Lower (calculate_bbands data 20 2)) None ''red'' None]"
    using assms by (simp add: plot_data_def get_indicators_def Let_def split: option.splits)
  have mav: "pp_mav (plot_data self data) = Some [5]"
    using assms by (simp add: plot_data_def get_mav_def Let_def)
  have only: "p = plot_data self data" if "load_data mpf_plot self (Inr data) = Plotted p" for p
    using that
    by (auto simp: load_data_def load_try_def plot_data_call_def Let_def
        split: if_splits option.splits sum.splits)
  have drawn: "load_data mpf_plot self (Inr data) = Plotted (plot_data self data)"
    if "data \<noteq> []" "symbol_var self \<noteq> []" "mpf_plot (plot_data self data) = None"
    using that by (simp add: load_data_def load_try_def plot_data_call_def)
  have kw: "length (pp_addplot (plot_data self data)) = 3
       \<and> map ap_panel (pp_addplot (plot_data self data)) = [PanelLower, PanelMain, PanelMain]
       \<and> map ap_ylabel (pp_addplot (plot_data self data)) = [Some ''RSI'', None, None]"
    by (simp add: args make_addplot_def)
  from args kw mav only drawn show ?thesis by blast
qed

text \<open>
  Claim C9 on the table of the 21 sample closes, whose three overlays each hold a number,
  so that the stand-in for the drawing draws.
\<close>

theorem three_overlays_and_mav_witness:
  "length (pp_addplot (plot_data app_rsi_bbands_ma5 (map bar sample_closes))) = 3
   \<and> map ap_panel (pp_addplot (plot_data app_rsi_bbands_ma5 (map bar sample_closes)))
       = [PanelLower, PanelMain, PanelMain]
   \<and> pp_mav (plot_data app_rsi_bbands_ma5 (map bar sample_closes)) = Some [5]
   \<and> refuses_blank_overlay (plot_data app_rsi_bbands_ma5 (map bar sample_closes)) = None
   \<and> load_data refuses_blank_overlay app_rsi_bbands_ma5 (Inr (map bar sample_closes))
       = Plotted (plot_data app_rsi_bbands_ma5 (map bar sample_closes))"
proof -
  have t: "show_rsi app_rsi_bbands_ma5" "show_bbands app_rsi_bbands_ma5"
    "show_ma5 app_rsi_bbands_ma5" "\<not> show_ma20 app_rsi_bbands_ma5"
    "\<not> show_ma60 app_rsi_bbands_ma5" "\<not> show_ma200 app_rsi_bbands_ma5"
    by (simp_all add: app_rsi_bbands_ma5_def)
  have s: "symbol_var app_rsi_bbands_ma5 \<noteq> []" by (simp add: app_rsi_bbands_ma5_def)
  have d: "map bar sample_closes \<noteq> []" by (simp add: sample_closes_def)
  have p: "refuses_blank_overlay (plot_data app_rsi_bbands_ma5 (map bar sample_closes)) = None"
    by (rule sample_table_drawn)
  note a = three_overlays_and_mav
      [OF t, where mpf_plot = refuses_blank_overlay and data = "map bar sample_closes"]
  from a s d p show ?thesis by blast
qed

text \<open>
  Claim C10. With neither RSI nor Bollinger Bands ticked, \<open>get_indicators\<close> returns
  the empty list, and the plot always carries the list \<open>get_indicators\<close> returned;
  with no moving average ticked, \<open>get_mav\<close> returns \<open>None\<close> and the plot has no
  moving-average entry.
\<close>

theorem no_indicator_empty_list:
  "(\<not> show_rsi self \<and> \<not> show_bbands self \<longrightarrow>
      get_indicators self data = [] \<and> pp_addplot (plot_data self data) = [])
   \<and> pp_addplot (plot_data self data) = get_indicators self data
   \<and> (\<not> show_ma5 self \<and> \<not> show_ma20 self \<and> \<not> show_ma60 self \<and> \<not> show_ma200 self \<longrightarrow>
      get_mav self = None \<and> pp_mav (plot_data self data) = None)"
  by (auto simp: plot_data_def get_indicators_def get_mav_def Let_def split: option.splits)

text \<open>Claim C10 on the setting with no box but Volume ticked.\<close>

theorem no_indicator_empty_list_witness:
  "get_indicators app_default [bar 1] = []
   \<and> pp_addplot (plot_data app_default [bar 1]) = []
   \<and> get_mav app_default = None
   \<and> pp_mav (plot_data app_default [bar 1]) = None"
proof -
  have t: "\<not> show_rsi app_default \<and> \<not> show_bbands app_default"
    "\<not> show_ma5 app_default \<and> \<not> show_ma20 app_default
     \<and> \<not> show_ma60 app_default \<and> \<not> show_ma200 app_default"
    by (simp_all add: app_default_def)
  show ?thesis
    using no_indicator_empty_list [of app_default "[bar 1]"] t by blast
qed

end
